theory Spec2Isabelle
  imports Main
begin

section \<open>Python values\<close>

text \<open>
  The two modules \<^verbatim>\<open>piped_map_filter_reduce.py\<close> and
  \<^verbatim>\<open>piped_sorted_reversed_sum.py\<close> wrap six built-ins of Python
  (\<^verbatim>\<open>map\<close>, \<^verbatim>\<open>filter\<close>, \<^verbatim>\<open>functools.reduce\<close>,
  \<^verbatim>\<open>sum\<close>, \<^verbatim>\<open>sorted\<close>, \<^verbatim>\<open>reversed\<close>). Their dispatch looks at
  two properties of an argument only: its truth value (\<^verbatim>\<open>if iterable:\<close>) and whether
  it has the attribute \<^verbatim>\<open>__iter__\<close>. The values below are the arguments the model
  ranges over: \<^verbatim>\<open>None\<close>, booleans, integers, strings, lists, tuples and function
  objects. A function object is a name of type \<open>'f\<close>; what calling it with positional
  and keyword arguments does is given by an interpretation \<open>ap\<close>, which may return a
  value or raise. Values are immutable and
  a function object has no access to the deferred objects. The built-ins follow
  CPython 3.8 to 3.11: \<^verbatim>\<open>map\<close>, \<^verbatim>\<open>filter\<close> and \<^verbatim>\<open>reduce\<close> take no keyword
  argument, \<^verbatim>\<open>sum\<close> takes \<^verbatim>\<open>start\<close> by keyword.
\<close>

datatype exn = TypeError | OverflowError | Raised string

datatype 'f pyval =
    PNone
  | PBool bool
  | PInt int
  | PStr string
  | PList "'f pyval list"
  | PTuple "'f pyval list"
  | PFun 'f

type_synonym 'f kwargs = "(string \<times> 'f pyval) list"

type_synonym 'f interp = "'f \<Rightarrow> 'f pyval list \<Rightarrow> 'f kwargs \<Rightarrow> exn + 'f pyval"

text \<open>\<^verbatim>\<open>bool(v)\<close>: the truth value that \<^verbatim>\<open>if v:\<close> tests.\<close>

fun truthy :: "'f pyval \<Rightarrow> bool" where
  "truthy PNone = False"
| "truthy (PBool b) = b"
| "truthy (PInt i) = (i \<noteq> 0)"
| "truthy (PStr s) = (s \<noteq> [])"
| "truthy (PList xs) = (xs \<noteq> [])"
| "truthy (PTuple xs) = (xs \<noteq> [])"
| "truthy (PFun f) = True"

text \<open>\<^verbatim>\<open>hasattr(v, '__iter__')\<close>: strings, lists and tuples have the attribute.\<close>

fun has_iter :: "'f pyval \<Rightarrow> bool" where
  "has_iter (PStr s) = True"
| "has_iter (PList xs) = True"
| "has_iter (PTuple xs) = True"
| "has_iter PNone = False"
| "has_iter (PBool b) = False"
| "has_iter (PInt i) = False"
| "has_iter (PFun f) = False"

text \<open>The elements \<^verbatim>\<open>iter(v)\<close> yields; \<^verbatim>\<open>TypeError\<close> when \<open>v\<close> is not iterable.\<close>

fun iter_elems :: "'f pyval \<Rightarrow> exn + 'f pyval list" where
  "iter_elems (PStr s) = Inr (map (\<lambda>c. PStr [c]) s)"
| "iter_elems (PList xs) = Inr xs"
| "iter_elems (PTuple xs) = Inr xs"
| "iter_elems PNone = Inl TypeError"
| "iter_elems (PBool b) = Inl TypeError"
| "iter_elems (PInt i) = Inl TypeError"
| "iter_elems (PFun f) = Inl TypeError"

text \<open>
  Calling a value: only function objects are callable. The built-ins call their
  function argument with positional arguments only.
\<close>

fun call_value_kw ::
  "'f interp \<Rightarrow> 'f pyval \<Rightarrow> 'f pyval list \<Rightarrow> 'f kwargs \<Rightarrow> exn + 'f pyval" where
  "call_value_kw ap (PFun f) xs kw = ap f xs kw"
| "call_value_kw ap PNone xs kw = Inl TypeError"
| "call_value_kw ap (PBool b) xs kw = Inl TypeError"
| "call_value_kw ap (PInt i) xs kw = Inl TypeError"
| "call_value_kw ap (PStr s) xs kw = Inl TypeError"
| "call_value_kw ap (PList ys) xs kw = Inl TypeError"
| "call_value_kw ap (PTuple ys) xs kw = Inl TypeError"

fun call_value :: "'f interp \<Rightarrow> 'f pyval \<Rightarrow> 'f pyval list \<Rightarrow> exn + 'f pyval" where
  "call_value ap (PFun f) xs = ap f xs []"
| "call_value ap PNone xs = Inl TypeError"
| "call_value ap (PBool b) xs = Inl TypeError"
| "call_value ap (PInt i) xs = Inl TypeError"
| "call_value ap (PStr s) xs = Inl TypeError"
| "call_value ap (PList ys) xs = Inl TypeError"
| "call_value ap (PTuple ys) xs = Inl TypeError"

subsection \<open>Dictionaries of keyword arguments\<close>

text \<open>
  A keyword dictionary is an association list in insertion order. \<^verbatim>\<open>d[k] = v\<close>
  replaces the value of a key that is present and appends a new key otherwise.
  \<^verbatim>\<open>{**a, **b}\<close> is a copy of \<open>a\<close> in which every item of \<open>b\<close> is then stored in turn.
\<close>

fun dict_setitem :: "string \<Rightarrow> 'v \<Rightarrow> (string \<times> 'v) list \<Rightarrow> (string \<times> 'v) list" where
  "dict_setitem k v [] = [(k, v)]"
| "dict_setitem k v ((k', v') # d) =
     (if k' = k then (k, v) # d else (k', v') # dict_setitem k v d)"

definition dict_merge :: "(string \<times> 'v) list \<Rightarrow> (string \<times> 'v) list \<Rightarrow> (string \<times> 'v) list" where
  "dict_merge a b = fold (\<lambda>(k, v) d. dict_setitem k v d) b a"

definition dict_keys :: "(string \<times> 'v) list \<Rightarrow> string list" where
  "dict_keys d = map fst d"

definition dict_get :: "(string \<times> 'v) list \<Rightarrow> string \<Rightarrow> 'v option" where
  "dict_get d k = map_of d k"

definition dict_del :: "string \<Rightarrow> (string \<times> 'v) list \<Rightarrow> (string \<times> 'v) list" where
  "dict_del k d = filter (\<lambda>(k', v). k' \<noteq> k) d"

section \<open>The built-ins being wrapped\<close>

datatype builtin = Bmap | Bfilter | Breduce | Bsum | Bsorted | Breversed

subsection \<open>Objects\<close>

text \<open>
  The deferred objects of the two modules. \<^verbatim>\<open>PartialBase\<close> has one subclass per
  wrapper (\<^verbatim>\<open>PartialMap\<close>, \<^verbatim>\<open>PartialFilter\<close>, \<^verbatim>\<open>PartialReduce\<close>), which fixes
  the property \<^verbatim>\<open>transformation\<close>; \<^verbatim>\<open>__init__\<close> stores \<^verbatim>\<open>function\<close>,
  \<^verbatim>\<open>args\<close> and \<^verbatim>\<open>kwargs\<close>. \<^verbatim>\<open>PartialPipe\<close> stores the built-in itself as
  \<^verbatim>\<open>function\<close>.
\<close>

datatype partial_class = PartialMap | PartialFilter | PartialReduce

record 'f PartialBase =
  pb_class :: partial_class
  pb_function :: "'f pyval"
  pb_args :: "'f pyval list"
  pb_kwargs :: "'f kwargs"

record 'f PartialPipe =
  pp_function :: builtin
  pp_args :: "'f pyval list"
  pp_kwargs :: "'f kwargs"

text \<open>
  What a call returns: a plain value, one of the lazy iterators of \<^verbatim>\<open>map\<close>,
  \<^verbatim>\<open>filter\<close> and \<^verbatim>\<open>reversed\<close>, or a deferred object. A \<^verbatim>\<open>map\<close> object holds
  its function and, per step, the row of arguments it will pass; nothing is called
  until the object is consumed.
\<close>

datatype 'f obj =
    Value "'f pyval"
  | MapObject "'f pyval" "'f pyval list list"
  | FilterObject "'f pyval" "'f pyval list"
  | ReversedObject "'f pyval list"
  | Partial "'f PartialBase"
  | Pipe "'f PartialPipe"

text \<open>Rows of a \<^verbatim>\<open>map\<close> over several iterables: it stops with the shortest.\<close>

fun zip_rows :: "'a list list \<Rightarrow> 'a list list" where
  "zip_rows [] = []"
| "zip_rows [xs] = map (\<lambda>x. [x]) xs"
| "zip_rows (xs # xss) = map (\<lambda>(x, row). x # row) (zip xs (zip_rows xss))"

fun iter_all :: "'f pyval list \<Rightarrow> exn + 'f pyval list list" where
  "iter_all [] = Inr []"
| "iter_all (v # vs) =
     (case iter_elems v of
        Inl e \<Rightarrow> Inl e
      | Inr xs \<Rightarrow> (case iter_all vs of Inl e \<Rightarrow> Inl e | Inr xss \<Rightarrow> Inr (xs # xss)))"

text \<open>
  \<^verbatim>\<open>map(func, *iterables)\<close>: no keyword arguments, at least one iterable, each
  argument after the function must be iterable. The function is not looked at.
\<close>

definition py_map :: "'f pyval list \<Rightarrow> 'f kwargs \<Rightarrow> exn + 'f obj" where
  "py_map args kwargs =
     (if kwargs \<noteq> [] then Inl TypeError
      else case args of
        func # it # its \<Rightarrow>
          (case iter_all (it # its) of
             Inl e \<Rightarrow> Inl e
           | Inr xss \<Rightarrow> Inr (MapObject func (zip_rows xss)))
      | _ \<Rightarrow> Inl TypeError)"

text \<open>\<^verbatim>\<open>filter(function, iterable)\<close>: exactly two positional arguments.\<close>

definition py_filter :: "'f pyval list \<Rightarrow> 'f kwargs \<Rightarrow> exn + 'f obj" where
  "py_filter args kwargs =
     (if kwargs \<noteq> [] then Inl TypeError
      else case args of
        [func, it] \<Rightarrow>
          (case iter_elems it of
             Inl e \<Rightarrow> Inl e
           | Inr xs \<Rightarrow> Inr (FilterObject func xs))
      | _ \<Rightarrow> Inl TypeError)"

text \<open>
  \<^verbatim>\<open>functools.reduce(function, iterable[, initial])\<close>: the fold runs at once.
  Without an initial value the first element starts the fold and an empty iterable
  is a \<^verbatim>\<open>TypeError\<close>.
\<close>

fun reduce_loop :: "'f interp \<Rightarrow> 'f pyval \<Rightarrow> 'f pyval \<Rightarrow> 'f pyval list \<Rightarrow> exn + 'f pyval" where
  "reduce_loop ap func acc [] = Inr acc"
| "reduce_loop ap func acc (x # xs) =
     (case call_value ap func [acc, x] of
        Inl e \<Rightarrow> Inl e
      | Inr acc' \<Rightarrow> reduce_loop ap func acc' xs)"

definition py_reduce :: "'f interp \<Rightarrow> 'f pyval list \<Rightarrow> 'f kwargs \<Rightarrow> exn + 'f obj" where
  "py_reduce ap args kwargs =
     (if kwargs \<noteq> [] then Inl TypeError
      else case args of
        [func, it] \<Rightarrow>
          (case iter_elems it of
             Inl e \<Rightarrow> Inl e
           | Inr [] \<Rightarrow> Inl TypeError
           | Inr (x # xs) \<Rightarrow> map_sum id Value (reduce_loop ap func x xs))
      | [func, it, initial] \<Rightarrow>
          (case iter_elems it of
             Inl e \<Rightarrow> Inl e
           | Inr xs \<Rightarrow> map_sum id Value (reduce_loop ap func initial xs))
      | _ \<Rightarrow> Inl TypeError)"

text \<open>
  \<^verbatim>\<open>a + b\<close> on the values of the model: integers (a boolean counts as 0 or 1),
  and concatenation of two strings, two lists or two tuples.
\<close>

fun num_of :: "'f pyval \<Rightarrow> int option" where
  "num_of (PInt i) = Some i"
| "num_of (PBool b) = Some (if b then 1 else 0)"
| "num_of PNone = None"
| "num_of (PStr s) = None"
| "num_of (PList xs) = None"
| "num_of (PTuple xs) = None"
| "num_of (PFun f) = None"

definition py_add :: "'f pyval \<Rightarrow> 'f pyval \<Rightarrow> exn + 'f pyval" where
  "py_add a b =
     (case (num_of a, num_of b) of
        (Some i, Some j) \<Rightarrow> Inr (PInt (i + j))
      | _ \<Rightarrow>
        (case (a, b) of
           (PStr s, PStr t) \<Rightarrow> Inr (PStr (s @ t))
         | (PList xs, PList ys) \<Rightarrow> Inr (PList (xs @ ys))
         | (PTuple xs, PTuple ys) \<Rightarrow> Inr (PTuple (xs @ ys))
         | _ \<Rightarrow> Inl TypeError))"

fun sum_loop :: "'f pyval \<Rightarrow> 'f pyval list \<Rightarrow> exn + 'f pyval" where
  "sum_loop acc [] = Inr acc"
| "sum_loop acc (x # xs) =
     (case py_add acc x of Inl e \<Rightarrow> Inl e | Inr acc' \<Rightarrow> sum_loop acc' xs)"

definition is_str :: "'f pyval \<Rightarrow> bool" where
  "is_str v = (case v of PStr s \<Rightarrow> True | _ \<Rightarrow> False)"

definition sum_from :: "'f pyval \<Rightarrow> 'f pyval \<Rightarrow> exn + 'f obj" where
  "sum_from it start =
     (if is_str start then Inl TypeError
      else case iter_elems it of
        Inl e \<Rightarrow> Inl e
      | Inr xs \<Rightarrow> map_sum id Value (sum_loop start xs))"

text \<open>
  \<^verbatim>\<open>sum(iterable, /, start=0)\<close>: \<^verbatim>\<open>start\<close> is the second positional argument or
  the only keyword; a string as \<^verbatim>\<open>start\<close> is refused.
\<close>

definition py_sum :: "'f pyval list \<Rightarrow> 'f kwargs \<Rightarrow> exn + 'f obj" where
  "py_sum args kwargs =
     (case args of
        [it] \<Rightarrow>
          (case kwargs of
             [] \<Rightarrow> sum_from it (PInt 0)
           | [(k, start)] \<Rightarrow> if k = ''start'' then sum_from it start else Inl TypeError
           | _ \<Rightarrow> Inl TypeError)
      | [it, start] \<Rightarrow> if kwargs = [] then sum_from it start else Inl TypeError
      | _ \<Rightarrow> Inl TypeError)"

text \<open>
  \<^verbatim>\<open>a == b\<close> and \<^verbatim>\<open>a < b\<close> on the values of the model. Numbers compare by value,
  strings by code point, lists with lists and tuples with tuples lexicographically:
  the first pair of unequal elements decides. Any other \<^verbatim>\<open><\<close> is a
  \<^verbatim>\<open>TypeError\<close>.
\<close>

fun py_eq :: "'f pyval \<Rightarrow> 'f pyval \<Rightarrow> bool"
  and py_eq_list :: "'f pyval list \<Rightarrow> 'f pyval list \<Rightarrow> bool" where
  "py_eq (PList xs) (PList ys) = py_eq_list xs ys"
| "py_eq (PTuple xs) (PTuple ys) = py_eq_list xs ys"
| "py_eq (PStr s) (PStr t) = (s = t)"
| "py_eq (PFun f) (PFun g) = (f = g)"
| "py_eq PNone PNone = True"
| "py_eq a b = (case (num_of a, num_of b) of (Some i, Some j) \<Rightarrow> i = j | _ \<Rightarrow> False)"
| "py_eq_list [] [] = True"
| "py_eq_list (x # xs) (y # ys) = (py_eq x y \<and> py_eq_list xs ys)"
| "py_eq_list [] (y # ys) = False"
| "py_eq_list (x # xs) [] = False"

fun str_lt :: "string \<Rightarrow> string \<Rightarrow> bool" where
  "str_lt [] [] = False"
| "str_lt [] (d # ds) = True"
| "str_lt (c # cs) [] = False"
| "str_lt (c # cs) (d # ds) =
     (if c = d then str_lt cs ds else (of_char c :: nat) < of_char d)"

fun py_lt :: "'f pyval \<Rightarrow> 'f pyval \<Rightarrow> exn + bool"
  and py_lt_list :: "'f pyval list \<Rightarrow> 'f pyval list \<Rightarrow> exn + bool" where
  "py_lt (PList xs) (PList ys) = py_lt_list xs ys"
| "py_lt (PTuple xs) (PTuple ys) = py_lt_list xs ys"
| "py_lt (PStr s) (PStr t) = Inr (str_lt s t)"
| "py_lt a b =
     (case (num_of a, num_of b) of (Some i, Some j) \<Rightarrow> Inr (i < j) | _ \<Rightarrow> Inl TypeError)"
| "py_lt_list [] [] = Inr False"
| "py_lt_list [] (y # ys) = Inr True"
| "py_lt_list (x # xs) [] = Inr False"
| "py_lt_list (x # xs) (y # ys) = (if py_eq x y then py_lt_list xs ys else py_lt x y)"

text \<open>
  \<^verbatim>\<open>sorted(iterable, /, *, key=None, reverse=False)\<close>. The keys are computed
  first, one call of \<^verbatim>\<open>key\<close> per element. The sort is stable in both directions:
  with \<^verbatim>\<open>reverse\<close> the result is descending and equal elements keep their order.
  It is written here as an insertion sort that only ever asks \<^verbatim>\<open><\<close>.
\<close>

fun decorate :: "'f interp \<Rightarrow> 'f pyval \<Rightarrow> 'f pyval list \<Rightarrow> exn + ('f pyval \<times> 'f pyval) list" where
  "decorate ap key [] = Inr []"
| "decorate ap key (x # xs) =
     (case (case key of PNone \<Rightarrow> Inr x | _ \<Rightarrow> call_value ap key [x]) of
        Inl e \<Rightarrow> Inl e
      | Inr k \<Rightarrow>
        (case decorate ap key xs of Inl e \<Rightarrow> Inl e | Inr kxs \<Rightarrow> Inr ((k, x) # kxs)))"

fun insert_sorted ::
  "bool \<Rightarrow> ('f pyval \<times> 'a) \<Rightarrow> ('f pyval \<times> 'a) list \<Rightarrow> exn + ('f pyval \<times> 'a) list" where
  "insert_sorted reverse p [] = Inr [p]"
| "insert_sorted reverse p (q # qs) =
     (case (if reverse then py_lt (fst p) (fst q) else py_lt (fst q) (fst p)) of
        Inl e \<Rightarrow> Inl e
      | Inr after \<Rightarrow>
          if after
          then (case insert_sorted reverse p qs of Inl e \<Rightarrow> Inl e | Inr rs \<Rightarrow> Inr (q # rs))
          else Inr (p # q # qs))"

fun sort_pairs :: "bool \<Rightarrow> ('f pyval \<times> 'a) list \<Rightarrow> exn + ('f pyval \<times> 'a) list" where
  "sort_pairs reverse [] = Inr []"
| "sort_pairs reverse (p # ps) =
     (case sort_pairs reverse ps of Inl e \<Rightarrow> Inl e | Inr qs \<Rightarrow> insert_sorted reverse p qs)"

text \<open>
  The flag \<^verbatim>\<open>reverse\<close> is converted to a C \<^verbatim>\<open>int\<close>: it must be a boolean or
  an integer, and an integer outside the 32-bit range is an \<^verbatim>\<open>OverflowError\<close>.
\<close>

fun reverse_flag :: "'f pyval \<Rightarrow> exn + bool" where
  "reverse_flag (PBool b) = Inr b"
| "reverse_flag (PInt i) =
     (if - 2147483648 \<le> i \<and> i \<le> 2147483647 then Inr (i \<noteq> 0) else Inl OverflowError)"
| "reverse_flag PNone = Inl TypeError"
| "reverse_flag (PStr s) = Inl TypeError"
| "reverse_flag (PList xs) = Inl TypeError"
| "reverse_flag (PTuple xs) = Inl TypeError"
| "reverse_flag (PFun f) = Inl TypeError"

definition kwarg_or :: "'f kwargs \<Rightarrow> string \<Rightarrow> 'f pyval \<Rightarrow> 'f pyval" where
  "kwarg_or kwargs k dflt = (case dict_get kwargs k of None \<Rightarrow> dflt | Some v \<Rightarrow> v)"

definition py_sorted :: "'f interp \<Rightarrow> 'f pyval list \<Rightarrow> 'f kwargs \<Rightarrow> exn + 'f obj" where
  "py_sorted ap args kwargs =
     (case args of
        [it] \<Rightarrow>
          if \<not> list_all (\<lambda>k. k = ''key'' \<or> k = ''reverse'') (dict_keys kwargs)
          then Inl TypeError
          else
            (case iter_elems it of
               Inl e \<Rightarrow> Inl e
             | Inr xs \<Rightarrow>
               (case reverse_flag (kwarg_or kwargs ''reverse'' (PBool False)) of
                  Inl e \<Rightarrow> Inl e
                | Inr reverse \<Rightarrow>
                  (case decorate ap (kwarg_or kwargs ''key'' PNone) xs of
                     Inl e \<Rightarrow> Inl e
                   | Inr kxs \<Rightarrow>
                       map_sum id (\<lambda>res. Value (PList (map snd res)))
                         (sort_pairs reverse kxs))))
      | _ \<Rightarrow> Inl TypeError)"

text \<open>\<^verbatim>\<open>reversed(seq, /)\<close>: one sequence, no keyword arguments.\<close>

definition py_reversed :: "'f pyval list \<Rightarrow> 'f kwargs \<Rightarrow> exn + 'f obj" where
  "py_reversed args kwargs =
     (if kwargs \<noteq> [] then Inl TypeError
      else case args of
        [seq] \<Rightarrow>
          (case iter_elems seq of
             Inl e \<Rightarrow> Inl e
           | Inr xs \<Rightarrow> Inr (ReversedObject (rev xs)))
      | _ \<Rightarrow> Inl TypeError)"

text \<open>Calling a built-in with positional and keyword arguments.\<close>

fun call_builtin :: "'f interp \<Rightarrow> builtin \<Rightarrow> 'f pyval list \<Rightarrow> 'f kwargs \<Rightarrow> exn + 'f obj" where
  "call_builtin ap Bmap args kwargs = py_map args kwargs"
| "call_builtin ap Bfilter args kwargs = py_filter args kwargs"
| "call_builtin ap Breduce args kwargs = py_reduce ap args kwargs"
| "call_builtin ap Bsum args kwargs = py_sum args kwargs"
| "call_builtin ap Bsorted args kwargs = py_sorted ap args kwargs"
| "call_builtin ap Breversed args kwargs = py_reversed args kwargs"

subsection \<open>Consuming a result\<close>

text \<open>
  \<^verbatim>\<open>list(r)\<close>: the elements a result yields. This is where a \<^verbatim>\<open>map\<close> object
  calls its function and a \<^verbatim>\<open>filter\<close> object its predicate (\<^verbatim>\<open>None\<close> as the
  predicate keeps the true elements); the first exception ends it.
\<close>

fun map_rows :: "'f interp \<Rightarrow> 'f pyval \<Rightarrow> 'f pyval list list \<Rightarrow> exn + 'f pyval list" where
  "map_rows ap func [] = Inr []"
| "map_rows ap func (row # rows) =
     (case call_value ap func row of
        Inl e \<Rightarrow> Inl e
      | Inr y \<Rightarrow> (case map_rows ap func rows of Inl e \<Rightarrow> Inl e | Inr ys \<Rightarrow> Inr (y # ys)))"

fun filter_elems :: "'f interp \<Rightarrow> 'f pyval \<Rightarrow> 'f pyval list \<Rightarrow> exn + 'f pyval list" where
  "filter_elems ap func [] = Inr []"
| "filter_elems ap func (x # xs) =
     (case (case func of PNone \<Rightarrow> Inr x | _ \<Rightarrow> call_value ap func [x]) of
        Inl e \<Rightarrow> Inl e
      | Inr t \<Rightarrow>
        (case filter_elems ap func xs of
           Inl e \<Rightarrow> Inl e
         | Inr ys \<Rightarrow> Inr (if truthy t then x # ys else ys)))"

fun consume :: "'f interp \<Rightarrow> 'f obj \<Rightarrow> exn + 'f pyval list" where
  "consume ap (Value v) = iter_elems v"
| "consume ap (MapObject func rows) = map_rows ap func rows"
| "consume ap (FilterObject func xs) = filter_elems ap func xs"
| "consume ap (ReversedObject xs) = Inr xs"
| "consume ap (Partial d) = Inl TypeError"
| "consume ap (Pipe d) = Inl TypeError"

section \<open>Module \<^verbatim>\<open>piped_map_filter_reduce\<close>\<close>

text \<open>
  The property \<^verbatim>\<open>transformation\<close>, as the three local subclasses define it.
\<close>

fun transformation :: "partial_class \<Rightarrow> builtin" where
  "transformation PartialMap = Bmap"
| "transformation PartialFilter = Bfilter"
| "transformation PartialReduce = Breduce"

text \<open>\<^verbatim>\<open>PartialBase.__init__(self, function, *args, **kwargs)\<close>\<close>

definition PartialBase_init ::
  "partial_class \<Rightarrow> 'f pyval \<Rightarrow> 'f pyval list \<Rightarrow> 'f kwargs \<Rightarrow> 'f PartialBase" where
  "PartialBase_init cls function args kwargs =
     \<lparr>pb_class = cls, pb_function = function, pb_args = args, pb_kwargs = kwargs\<rparr>"

text \<open>
  \<^verbatim>\<open>PartialBase.__call__(self, iterable, *args, **kwargs)\<close>, its body. A method is
  a function from the object to the object afterwards and the outcome; the body
  assigns no attribute, so the object is handed back as it came. The base class
  leaves the property \<^verbatim>\<open>transformation\<close> abstract, so the body is written for any
  callable \<open>t\<close> that the property may give.
\<close>

type_synonym 'f primitive = "'f pyval list \<Rightarrow> 'f kwargs \<Rightarrow> exn + 'f obj"

definition PartialBase_call_with ::
  "'f primitive \<Rightarrow> 'f PartialBase \<Rightarrow> 'f pyval \<Rightarrow> 'f pyval list \<Rightarrow> 'f kwargs
     \<Rightarrow> 'f PartialBase \<times> (exn + 'f obj)" where
  "PartialBase_call_with t self iterable args kwargs =
     (let updated_kwargs = dict_merge (pb_kwargs self) kwargs
      in (self, t (pb_function self # iterable # pb_args self @ args) updated_kwargs))"

text \<open>
  In the three subclasses of the module the property gives the built-in of the class.
\<close>

definition PartialBase_call ::
  "'f interp \<Rightarrow> 'f PartialBase \<Rightarrow> 'f pyval \<Rightarrow> 'f pyval list \<Rightarrow> 'f kwargs
     \<Rightarrow> 'f PartialBase \<times> (exn + 'f obj)" where
  "PartialBase_call ap self iterable args kwargs =
     PartialBase_call_with (call_builtin ap (transformation (pb_class self)))
       self iterable args kwargs"

text \<open>
  How a call \<^verbatim>\<open>d(*pos, **kw)\<close> fills the parameters
  \<^verbatim>\<open>(self, iterable, *args, **kwargs)\<close>: the first positional argument is the
  iterable, or the keyword \<^verbatim>\<open>iterable\<close> when there is no positional argument;
  a parameter given twice or not at all is a \<^verbatim>\<open>TypeError\<close>.
\<close>

definition PartialBase_bind ::
  "'f pyval list \<Rightarrow> 'f kwargs \<Rightarrow> exn + ('f pyval \<times> 'f pyval list \<times> 'f kwargs)" where
  "PartialBase_bind pos kw =
     (if ''self'' \<in> set (dict_keys kw) then Inl TypeError
      else case pos of
        iterable # args \<Rightarrow>
          if ''iterable'' \<in> set (dict_keys kw) then Inl TypeError
          else Inr (iterable, args, kw)
      | [] \<Rightarrow>
          (case dict_get kw ''iterable'' of
             None \<Rightarrow> Inl TypeError
           | Some iterable \<Rightarrow> Inr (iterable, [], dict_del ''iterable'' kw)))"

definition PartialBase_invoke_with ::
  "'f primitive \<Rightarrow> 'f PartialBase \<Rightarrow> 'f pyval list \<Rightarrow> 'f kwargs
     \<Rightarrow> 'f PartialBase \<times> (exn + 'f obj)" where
  "PartialBase_invoke_with t self pos kw =
     (case PartialBase_bind pos kw of
        Inl e \<Rightarrow> (self, Inl e)
      | Inr (iterable, args, kwargs) \<Rightarrow> PartialBase_call_with t self iterable args kwargs)"

definition PartialBase_invoke ::
  "'f interp \<Rightarrow> 'f PartialBase \<Rightarrow> 'f pyval list \<Rightarrow> 'f kwargs
     \<Rightarrow> 'f PartialBase \<times> (exn + 'f obj)" where
  "PartialBase_invoke ap self pos kw =
     (case PartialBase_bind pos kw of
        Inl e \<Rightarrow> (self, Inl e)
      | Inr (iterable, args, kwargs) \<Rightarrow> PartialBase_call ap self iterable args kwargs)"

text \<open>\<^verbatim>\<open>PartialBase.__ror__(self, iterable)\<close>: \<^verbatim>\<open>return self(iterable)\<close>\<close>

definition PartialBase_ror ::
  "'f interp \<Rightarrow> 'f PartialBase \<Rightarrow> 'f pyval \<Rightarrow> 'f PartialBase \<times> (exn + 'f obj)" where
  "PartialBase_ror ap self iterable = PartialBase_invoke ap self [iterable] []"

text \<open>
  \<^verbatim>\<open>emap(function, iterable=None)\<close> and \<^verbatim>\<open>efilter(function, iterable=None)\<close>.
  A call without the second argument is the call with \<^verbatim>\<open>None\<close>.
\<close>

definition emap :: "'f pyval \<Rightarrow> 'f pyval \<Rightarrow> exn + 'f obj" where
  "emap function iterable =
     (if truthy iterable then py_map [function, iterable] []
      else Inr (Partial (PartialBase_init PartialMap function [] [])))"

definition efilter :: "'f pyval \<Rightarrow> 'f pyval \<Rightarrow> exn + 'f obj" where
  "efilter function iterable =
     (if truthy iterable then py_filter [function, iterable] []
      else Inr (Partial (PartialBase_init PartialFilter function [] [])))"

text \<open>\<^verbatim>\<open>ereduce(function, *args)\<close>\<close>

definition ereduce :: "'f interp \<Rightarrow> 'f pyval \<Rightarrow> 'f pyval list \<Rightarrow> exn + 'f obj" where
  "ereduce ap function args =
     (if args \<noteq> [] \<and> has_iter (hd args) then py_reduce ap (function # args) []
      else Inr (Partial (PartialBase_init PartialReduce function args [])))"

section \<open>Module \<^verbatim>\<open>piped_sorted_reversed_sum\<close>\<close>

text \<open>
  \<^verbatim>\<open>PartialPipe.__init__(self, function, *args, **kwargs)\<close>, reached as
  \<^verbatim>\<open>PartialPipe(function, *args, **kwargs)\<close>: a keyword named like one of the two
  leading parameters collides with it.
\<close>

definition PartialPipe_init ::
  "builtin \<Rightarrow> 'f pyval list \<Rightarrow> 'f kwargs \<Rightarrow> exn + 'f PartialPipe" where
  "PartialPipe_init function args kwargs =
     (if ''self'' \<in> set (dict_keys kwargs) \<or> ''function'' \<in> set (dict_keys kwargs)
      then Inl TypeError
      else Inr \<lparr>pp_function = function, pp_args = args, pp_kwargs = kwargs\<rparr>)"

text \<open>\<^verbatim>\<open>PartialPipe.__call__(self, iterable)\<close>, its body.\<close>

definition PartialPipe_call ::
  "'f interp \<Rightarrow> 'f PartialPipe \<Rightarrow> 'f pyval \<Rightarrow> 'f PartialPipe \<times> (exn + 'f obj)" where
  "PartialPipe_call ap self iterable =
     (self, call_builtin ap (pp_function self) (iterable # pp_args self) (pp_kwargs self))"

text \<open>
  How a call \<^verbatim>\<open>d(*pos, **kw)\<close> fills the parameters \<^verbatim>\<open>(self, iterable)\<close>: one
  positional argument and no keyword, or the keyword \<^verbatim>\<open>iterable\<close> alone; anything
  else is a \<^verbatim>\<open>TypeError\<close>.
\<close>

definition PartialPipe_bind :: "'f pyval list \<Rightarrow> 'f kwargs \<Rightarrow> exn + 'f pyval" where
  "PartialPipe_bind pos kw =
     (case pos of
        [] \<Rightarrow>
          (case kw of
             [(k, iterable)] \<Rightarrow> if k = ''iterable'' then Inr iterable else Inl TypeError
           | _ \<Rightarrow> Inl TypeError)
      | [iterable] \<Rightarrow> if kw = [] then Inr iterable else Inl TypeError
      | _ \<Rightarrow> Inl TypeError)"

definition PartialPipe_invoke ::
  "'f interp \<Rightarrow> 'f PartialPipe \<Rightarrow> 'f pyval list \<Rightarrow> 'f kwargs
     \<Rightarrow> 'f PartialPipe \<times> (exn + 'f obj)" where
  "PartialPipe_invoke ap self pos kw =
     (case PartialPipe_bind pos kw of
        Inl e \<Rightarrow> (self, Inl e)
      | Inr iterable \<Rightarrow> PartialPipe_call ap self iterable)"

text \<open>\<^verbatim>\<open>PartialPipe.__ror__(self, iterable)\<close>: \<^verbatim>\<open>return self(iterable)\<close>\<close>

definition PartialPipe_ror ::
  "'f interp \<Rightarrow> 'f PartialPipe \<Rightarrow> 'f pyval \<Rightarrow> 'f PartialPipe \<times> (exn + 'f obj)" where
  "PartialPipe_ror ap self iterable = PartialPipe_invoke ap self [iterable] []"

text \<open>
  The three subclasses of \<^verbatim>\<open>FunctionPartialPipe\<close> and their method
  \<^verbatim>\<open>function\<close>; \<^verbatim>\<open>esum\<close>, \<^verbatim>\<open>esorted\<close> and \<^verbatim>\<open>ereversed\<close> are the one
  instance of each.
\<close>

datatype FunctionPartialPipe = ESum | ESorted | EReversed

fun fpp_function :: "FunctionPartialPipe \<Rightarrow> builtin" where
  "fpp_function ESum = Bsum"
| "fpp_function ESorted = Bsorted"
| "fpp_function EReversed = Breversed"

definition esum :: FunctionPartialPipe where
  "esum = ESum"

definition esorted :: FunctionPartialPipe where
  "esorted = ESorted"

definition ereversed :: FunctionPartialPipe where
  "ereversed = EReversed"

text \<open>
  \<^verbatim>\<open>FunctionPartialPipe.__call__(self, *args, **kwargs)\<close>; a keyword
  \<^verbatim>\<open>self\<close> collides with the bound object.
\<close>

definition FunctionPartialPipe_call ::
  "'f interp \<Rightarrow> FunctionPartialPipe \<Rightarrow> 'f pyval list \<Rightarrow> 'f kwargs \<Rightarrow> exn + 'f obj" where
  "FunctionPartialPipe_call ap self args kwargs =
     (if ''self'' \<in> set (dict_keys kwargs) then Inl TypeError
      else
        let function = fpp_function self
        in if args \<noteq> [] \<and> has_iter (hd args) then call_builtin ap function args kwargs
           else map_sum id Pipe (PartialPipe_init function args kwargs))"

text \<open>\<^verbatim>\<open>FunctionPartialPipe.__ror__(self, iterable)\<close>\<close>

definition FunctionPartialPipe_ror ::
  "'f interp \<Rightarrow> FunctionPartialPipe \<Rightarrow> 'f pyval \<Rightarrow> exn + 'f obj" where
  "FunctionPartialPipe_ror ap self iterable =
     (let function = fpp_function self in call_builtin ap function [iterable] [])"

section \<open>Expressions over results\<close>

text \<open>
  \<^verbatim>\<open>a | b\<close> on two plain values: the bitwise or of two integers, a boolean when
  both are booleans; no other pair of values of the model supports it.
\<close>

definition py_or :: "'f pyval \<Rightarrow> 'f pyval \<Rightarrow> exn + 'f pyval" where
  "py_or a b =
     (case (a, b) of
        (PBool p, PBool q) \<Rightarrow> Inr (PBool (p \<or> q))
      | _ \<Rightarrow>
        (case (num_of a, num_of b) of
           (Some i, Some j) \<Rightarrow> Inr (PInt (or i j))
         | _ \<Rightarrow> Inl TypeError))"

text \<open>
  \<^verbatim>\<open>r(*pos, **kw)\<close> and \<^verbatim>\<open>lhs | r\<close> for a result \<open>r\<close> of one of the wrappers.
  The two deferred classes define \<^verbatim>\<open>__call__\<close> and \<^verbatim>\<open>__ror__\<close>; a plain value is
  callable when it is a function object; the iterators are neither callable nor
  operands of the pipe. The values on the left of the pipe have no \<^verbatim>\<open>__or__\<close> that
  accepts a deferred object, so Python falls through to the \<^verbatim>\<open>__ror__\<close> of the
  right operand.
\<close>

fun call_object :: "'f interp \<Rightarrow> 'f obj \<Rightarrow> 'f pyval list \<Rightarrow> 'f kwargs \<Rightarrow> exn + 'f obj" where
  "call_object ap (Partial d) pos kw = snd (PartialBase_invoke ap d pos kw)"
| "call_object ap (Pipe d) pos kw = snd (PartialPipe_invoke ap d pos kw)"
| "call_object ap (Value v) pos kw = map_sum id Value (call_value_kw ap v pos kw)"
| "call_object ap (MapObject func rows) pos kw = Inl TypeError"
| "call_object ap (FilterObject func xs) pos kw = Inl TypeError"
| "call_object ap (ReversedObject xs) pos kw = Inl TypeError"

fun pipe_object :: "'f interp \<Rightarrow> 'f pyval \<Rightarrow> 'f obj \<Rightarrow> exn + 'f obj" where
  "pipe_object ap lhs (Partial d) = snd (PartialBase_ror ap d lhs)"
| "pipe_object ap lhs (Pipe d) = snd (PartialPipe_ror ap d lhs)"
| "pipe_object ap lhs (Value v) = map_sum id Value (py_or lhs v)"
| "pipe_object ap lhs (MapObject func rows) = Inl TypeError"
| "pipe_object ap lhs (FilterObject func xs) = Inl TypeError"
| "pipe_object ap lhs (ReversedObject xs) = Inl TypeError"

definition then_call ::
  "'f interp \<Rightarrow> exn + 'f obj \<Rightarrow> 'f pyval list \<Rightarrow> 'f kwargs \<Rightarrow> exn + 'f obj" where
  "then_call ap r pos kw = (case r of Inl e \<Rightarrow> Inl e | Inr d \<Rightarrow> call_object ap d pos kw)"

definition then_pipe :: "'f interp \<Rightarrow> 'f pyval \<Rightarrow> exn + 'f obj \<Rightarrow> exn + 'f obj" where
  "then_pipe ap lhs r = (case r of Inl e \<Rightarrow> Inl e | Inr d \<Rightarrow> pipe_object ap lhs d)"

subsection \<open>The functions of the scenarios\<close>

text \<open>
  \<^verbatim>\<open>lambda a, b: a + b\<close>, \<^verbatim>\<open>lambda x: x * 2\<close> and \<^verbatim>\<open>lambda x: x > 1\<close>. On the
  values of the model \<^verbatim>\<open>x * 2\<close> is \<^verbatim>\<open>x + x\<close>, and \<^verbatim>\<open>x > 1\<close> is \<^verbatim>\<open>1 < x\<close>.
  A call fills the parameters from the positional arguments first and the rest by
  name; too many arguments, a parameter given twice, an unknown keyword or a missing
  parameter is a \<^verbatim>\<open>TypeError\<close>.
\<close>

datatype lam = Add | Double | GreaterOne

fun lam_params :: "lam \<Rightarrow> string list" where
  "lam_params Add = [''a'', ''b'']"
| "lam_params Double = [''x'']"
| "lam_params GreaterOne = [''x'']"

definition bind_params :: "string list \<Rightarrow> 'f pyval list \<Rightarrow> 'f kwargs \<Rightarrow> exn + 'f pyval list" where
  "bind_params names pos kw =
     (let rest = drop (length pos) names
      in if length names < length pos then Inl TypeError
         else if list_ex (\<lambda>k. k \<notin> set rest) (dict_keys kw) then Inl TypeError
         else if list_ex (\<lambda>n. n \<notin> set (dict_keys kw)) rest then Inl TypeError
         else Inr (pos @ map (\<lambda>n. kwarg_or kw n PNone) rest))"

fun lam_body :: "lam \<Rightarrow> lam pyval list \<Rightarrow> exn + lam pyval" where
  "lam_body Add [a, b] = py_add a b"
| "lam_body Double [x] = py_add x x"
| "lam_body GreaterOne [x] = map_sum id PBool (py_lt (PInt 1) x)"
| "lam_body f xs = Inl TypeError"

definition apply_lam :: "lam interp" where
  "apply_lam f pos kw =
     (case bind_params (lam_params f) pos kw of
        Inl e \<Rightarrow> Inl e
      | Inr xs \<Rightarrow> lam_body f xs)"

text \<open>
  \<^verbatim>\<open>lambda *args, **kwargs: (args, list(kwargs.items()))\<close>: a callable that
  returns what it was called with.
\<close>

definition echo_call :: "'f primitive" where
  "echo_call args kwargs =
     Inr (Value (PTuple [PTuple args, PList (map (\<lambda>(k, v). PTuple [PStr k, v]) kwargs)]))"

section \<open>Auxiliary facts\<close>

subsection \<open>Positional calls of the scenario functions\<close>

lemma apply_lam_Add [simp]: "apply_lam Add [a, b] [] = py_add a b"
  by (simp add: apply_lam_def bind_params_def dict_keys_def)

lemma apply_lam_Double [simp]: "apply_lam Double [x] [] = py_add x x"
  by (simp add: apply_lam_def bind_params_def dict_keys_def)

lemma apply_lam_GreaterOne [simp]:
  "apply_lam GreaterOne [x] [] = map_sum id PBool (py_lt (PInt 1) x)"
  by (simp add: apply_lam_def bind_params_def dict_keys_def)

subsection \<open>Merging keyword dictionaries\<close>

lemma dict_get_setitem:
  "dict_get (dict_setitem k v d) k' = (if k' = k then Some v else dict_get d k')"
  by (induction d) (auto simp: dict_get_def)

lemma dict_get_absent: "k \<notin> set (dict_keys d) \<Longrightarrow> dict_get d k = None"
  by (simp add: dict_get_def dict_keys_def map_of_eq_None_iff)

lemma dict_merge_Nil: "dict_merge a [] = a"
  by (simp add: dict_merge_def)

lemma dict_merge_Cons: "dict_merge a ((k, v) # b) = dict_merge (dict_setitem k v a) b"
  by (simp add: dict_merge_def)

text \<open>
  Looking a key up in \<^verbatim>\<open>{**a, **b}\<close>: the value of \<open>b\<close> when \<open>b\<close> has the key, the
  value of \<open>a\<close> otherwise. The keys of \<open>b\<close> are distinct, as those of a dictionary are.
\<close>

lemma dict_get_merge:
  "distinct (dict_keys b) \<Longrightarrow>
   dict_get (dict_merge a b) k = (case dict_get b k of Some v \<Rightarrow> Some v | None \<Rightarrow> dict_get a k)"
proof (induction b arbitrary: a)
  case Nil
  then show ?case by (simp add: dict_merge_Nil dict_get_def)
next
  case (Cons p b)
  obtain k0 v0 where p: "p = (k0, v0)" by (cases p)
  from Cons.prems p have fresh: "k0 \<notin> set (dict_keys b)" and dist: "distinct (dict_keys b)"
    by (simp_all add: dict_keys_def)
  have "dict_get (dict_merge a (p # b)) k =
        (case dict_get b k of Some v \<Rightarrow> Some v | None \<Rightarrow> dict_get (dict_setitem k0 v0 a) k)"
    using Cons.IH [OF dist] by (simp add: p dict_merge_Cons)
  also have "\<dots> = (case dict_get (p # b) k of Some v \<Rightarrow> Some v | None \<Rightarrow> dict_get a k)"
  proof (cases "k = k0")
    case True
    with fresh have "dict_get b k = None" by (simp add: dict_get_absent)
    moreover have "dict_get (dict_setitem k0 v0 a) k = Some v0"
      using True by (simp add: dict_get_setitem)
    moreover have "dict_get (p # b) k = Some v0"
      using True by (simp add: p dict_get_def)
    ultimately show ?thesis by simp
  next
    case False
    then have "dict_get (dict_setitem k0 v0 a) k = dict_get a k"
      by (simp add: dict_get_setitem)
    moreover have "dict_get (p # b) k = dict_get b k"
      using False by (simp add: p dict_get_def)
    ultimately show ?thesis by (simp split: option.splits)
  qed
  finally show ?case .
qed

subsection \<open>The built-ins never return a deferred object\<close>

lemma py_map_not_deferred: "py_map args kwargs \<noteq> Inr (Partial d)"
  by (auto simp: py_map_def split: list.splits sum.splits)

lemma py_filter_not_deferred: "py_filter args kwargs \<noteq> Inr (Partial d)"
  by (auto simp: py_filter_def split: list.splits sum.splits)

lemma map_sum_Value_not_deferred: "map_sum id Value r \<noteq> Inr (Partial d)"
  by (cases r) simp_all

lemma py_reduce_not_deferred: "py_reduce ap args kwargs \<noteq> Inr (Partial d)"
  by (auto simp: py_reduce_def map_sum_Value_not_deferred split: list.splits sum.splits)

subsection \<open>Sorting integers\<close>

text \<open>
  On a list of integers, without a key and ascending, the model of \<^verbatim>\<open>sorted\<close> is the
  sorting function of the library.
\<close>

lemma decorate_no_key: "decorate ap PNone xs = Inr (map (\<lambda>x. (x, x)) xs)"
  by (induction xs) simp_all

lemma insert_sorted_ints:
  "insert_sorted False (PInt i, PInt i) (map (\<lambda>j. (PInt j, PInt j)) ys) =
   Inr (map (\<lambda>j. (PInt j, PInt j)) (insort i ys))"
  by (induction ys) auto

lemma sort_pairs_ints:
  "sort_pairs False (map (\<lambda>j. (PInt j, PInt j)) xs) =
   Inr (map (\<lambda>j. (PInt j, PInt j)) (sort xs))"
  by (induction xs) (simp_all add: insert_sorted_ints)

lemma py_sorted_ints:
  "py_sorted ap [PList (map PInt xs)] [(''reverse'', PBool False)] =
   Inr (Value (PList (map PInt (sort xs))))"
  by (simp add: py_sorted_def dict_keys_def kwarg_or_def dict_get_def decorate_no_key
      sort_pairs_ints comp_def)

subsection \<open>The concrete scenarios\<close>

text \<open>
  \<^verbatim>\<open>ereduce(lambda a, b: a + b)([1, 2, 3])\<close> is 6;
  \<^verbatim>\<open>[1, 2, 3] | emap(lambda x: x * 2)\<close> yields 2, 4, 6;
  \<^verbatim>\<open>efilter(lambda x: x > 1, [1, 2, 3])\<close> is a \<^verbatim>\<open>filter\<close> object that yields 2, 3.
\<close>

lemma scenario_reduce_deferred:
  "then_call apply_lam (ereduce apply_lam (PFun Add) []) [PList [PInt 1, PInt 2, PInt 3]] [] =
   Inr (Value (PInt 6))"
  by (simp add: ereduce_def then_call_def PartialBase_invoke_def PartialBase_bind_def
      PartialBase_call_def
      PartialBase_call_with_def PartialBase_init_def dict_merge_def dict_keys_def py_reduce_def
      py_add_def)

lemma scenario_map_piped:
  "then_pipe apply_lam (PList [PInt 1, PInt 2, PInt 3]) (emap (PFun Double) PNone) =
     Inr (MapObject (PFun Double) [[PInt 1], [PInt 2], [PInt 3]])
   \<and> consume apply_lam (MapObject (PFun Double) [[PInt 1], [PInt 2], [PInt 3]]) =
     Inr [PInt 2, PInt 4, PInt 6]"
  by (simp add: emap_def then_pipe_def PartialBase_ror_def PartialBase_invoke_def
      PartialBase_bind_def PartialBase_call_def
      PartialBase_call_with_def PartialBase_init_def dict_merge_def
      dict_keys_def py_map_def py_add_def)

lemma scenario_filter_immediate:
  "efilter (PFun GreaterOne) (PList [PInt 1, PInt 2, PInt 3]) =
     Inr (FilterObject (PFun GreaterOne) [PInt 1, PInt 2, PInt 3])
   \<and> consume apply_lam (FilterObject (PFun GreaterOne) [PInt 1, PInt 2, PInt 3]) =
     Inr [PInt 2, PInt 3]"
  by (simp add: efilter_def py_filter_def)

section \<open>The claims\<close>

text \<open>
  Claim C1: for every function \<open>f\<close> and every sequence \<open>s\<close>, \<^verbatim>\<open>emap(f, s)\<close> is
  \<^verbatim>\<open>map(f, s)\<close>. The code at the empty list: \<^verbatim>\<open>emap(f, [])\<close> is a
  \<^verbatim>\<open>PartialMap\<close> object, where \<^verbatim>\<open>map(f, [])\<close> is a \<^verbatim>\<open>map\<close> object that
  yields nothing. The guard \<^verbatim>\<open>if iterable:\<close> takes the empty list for an argument
  that was left out.
\<close>

theorem emap_empty_list_deferred:
  "emap f (PList []) = Inr (Partial (PartialBase_init PartialMap f [] []))
   \<and> py_map [f, PList []] [] = Inr (MapObject f [])
   \<and> emap f (PList []) \<noteq> py_map [f, PList []] []"
  by (simp add: emap_def py_map_def)

text \<open>
  Claim C2: for every function \<open>f\<close> and every sequence \<open>s\<close>, \<^verbatim>\<open>emap(f)(s)\<close> equals
  \<^verbatim>\<open>emap(f, s)\<close>. The code at the empty list: the deferred call \<^verbatim>\<open>emap(f)([])\<close> is a
  \<^verbatim>\<open>map\<close> object, the immediate call \<^verbatim>\<open>emap(f, [])\<close> a \<^verbatim>\<open>PartialMap\<close> object.
\<close>

theorem emap_deferred_differs_on_empty_list:
  "then_call ap (emap f PNone) [PList []] [] = Inr (MapObject f [])
   \<and> emap f (PList []) = Inr (Partial (PartialBase_init PartialMap f [] []))
   \<and> then_call ap (emap f PNone) [PList []] [] \<noteq> emap f (PList [])"
  by (simp add: emap_def then_call_def PartialBase_invoke_def PartialBase_bind_def
      PartialBase_call_def
      PartialBase_call_with_def PartialBase_init_def dict_merge_def dict_keys_def py_map_def)

text \<open>
  Claim C3, as amended: \<^verbatim>\<open>esorted(reverse=False)\<close> is a \<^verbatim>\<open>PartialPipe\<close> object
  that stores \<^verbatim>\<open>reverse=False\<close>. Its \<^verbatim>\<open>__call__\<close> takes the iterable and nothing
  else, so a call with \<^verbatim>\<open>reverse\<close> given again is a \<^verbatim>\<open>TypeError\<close>, whatever the
  value; called with the sequence alone it returns
  \<^verbatim>\<open>sorted(s, reverse=False)\<close>, which on a list of integers is the ascending order.
\<close>

theorem esorted_deferred_applies_stored_reverse:
  "FunctionPartialPipe_call ap esorted [] [(''reverse'', PBool False)] =
     Inr (Pipe \<lparr>pp_function = Bsorted, pp_args = [], pp_kwargs = [(''reverse'', PBool False)]\<rparr>)
   \<and> then_call ap (FunctionPartialPipe_call ap esorted [] [(''reverse'', PBool False)])
        [s] [(''reverse'', r)] = Inl TypeError
   \<and> then_call ap (FunctionPartialPipe_call ap esorted [] [(''reverse'', PBool False)])
        [s] [] = py_sorted ap [s] [(''reverse'', PBool False)]
   \<and> then_call ap (FunctionPartialPipe_call ap esorted [] [(''reverse'', PBool False)])
        [PList (map PInt xs)] [] = Inr (Value (PList (map PInt (sort xs))))"
  by (simp add: then_call_def FunctionPartialPipe_call_def esorted_def PartialPipe_init_def
      dict_keys_def PartialPipe_invoke_def PartialPipe_bind_def PartialPipe_call_def
      py_sorted_ints)

text \<open>
  Claim C3 as stated, that the call-time \<^verbatim>\<open>reverse=True\<close> wins and the result is
  descending, fails: \<^verbatim>\<open>esorted(reverse=False)([3, 1, 2], reverse=True)\<close> raises.
\<close>

theorem esorted_call_time_reverse_counterexample:
  "then_call apply_lam
     (FunctionPartialPipe_call apply_lam esorted [] [(''reverse'', PBool False)])
     [PList [PInt 3, PInt 1, PInt 2]] [(''reverse'', PBool True)] = Inl TypeError
   \<and> then_call apply_lam
     (FunctionPartialPipe_call apply_lam esorted [] [(''reverse'', PBool False)])
     [PList [PInt 3, PInt 1, PInt 2]] [(''reverse'', PBool True)]
     \<noteq> Inr (Value (PList [PInt 3, PInt 2, PInt 1]))"
  by (simp add: then_call_def FunctionPartialPipe_call_def esorted_def PartialPipe_init_def
      dict_keys_def PartialPipe_invoke_def PartialPipe_bind_def)

text \<open>
  Claim C4, as amended: for every function \<open>f\<close> and every value \<open>x\<close> without the attribute
  \<^verbatim>\<open>__iter__\<close>, \<^verbatim>\<open>ereduce(f, x)\<close> raises nothing and returns a deferred object that
  stores \<open>x\<close> as its one positional argument; applied to \<open>s\<close> it calls
  \<^verbatim>\<open>reduce(f, s, x)\<close>, so \<open>x\<close> is the initial value.
\<close>

theorem ereduce_non_iterable_defers:
  assumes "\<not> has_iter x"
  shows "ereduce ap f [x] = Inr (Partial (PartialBase_init PartialReduce f [x] []))
    \<and> then_call ap (ereduce ap f [x]) [s] [] = py_reduce ap [f, s, x] []"
  using assms
  by (simp add: ereduce_def then_call_def PartialBase_invoke_def PartialBase_bind_def
      PartialBase_call_def
      PartialBase_call_with_def PartialBase_init_def dict_merge_def dict_keys_def)

theorem ereduce_non_iterable_defers_witness:
  "\<not> has_iter (PInt 5 :: lam pyval)
   \<and> ereduce apply_lam (PFun Add) [PInt 5] =
       Inr (Partial (PartialBase_init PartialReduce (PFun Add) [PInt 5] []))
   \<and> then_call apply_lam (ereduce apply_lam (PFun Add) [PInt 5])
       [PList [PInt 1, PInt 2, PInt 3]] [] = Inr (Value (PInt 11))"
proof -
  have h: "\<not> has_iter (PInt 5 :: lam pyval)" by simp
  have r: "py_reduce apply_lam [PFun Add, PList [PInt 1, PInt 2, PInt 3], PInt 5] [] =
        Inr (Value (PInt 11))"
    by (simp add: py_reduce_def py_add_def)
  note t = ereduce_non_iterable_defers
    [OF h, of apply_lam "PFun Add" "PList [PInt 1, PInt 2, PInt 3]"]
  from t have a: "ereduce apply_lam (PFun Add) [PInt 5] =
       Inr (Partial (PartialBase_init PartialReduce (PFun Add) [PInt 5] []))"
    by (rule conjunct1)
  from t have b: "then_call apply_lam (ereduce apply_lam (PFun Add) [PInt 5])
       [PList [PInt 1, PInt 2, PInt 3]] [] = Inr (Value (PInt 11))"
    unfolding r by (rule conjunct2)
  from h a b show ?thesis by blast
qed

text \<open>
  Claim C4 as stated, that \<^verbatim>\<open>ereduce(f, x)\<close> raises instead of deferring, fails at
  \<^verbatim>\<open>ereduce(lambda a, b: a + b, 5)\<close>.
\<close>

theorem ereduce_non_iterable_counterexample:
  "ereduce apply_lam (PFun Add) [PInt 5] =
     Inr (Partial (PartialBase_init PartialReduce (PFun Add) [PInt 5] []))
   \<and> ereduce apply_lam (PFun Add) [PInt 5] \<noteq> Inl TypeError"
  by (simp add: ereduce_def)

text \<open>
  Claim C5: a \<^verbatim>\<open>PartialBase\<close> object with stored positional arguments \<open>A\<close> and stored
  keyword arguments \<open>K\<close>, invoked with the iterable \<open>s\<close>, further positional arguments
  \<open>B\<close> and keyword arguments \<open>K2\<close>, calls its primitive with the arguments
  \<open>f, s, A, B\<close> in this order and the merged keywords, in which a key of \<open>K2\<close> has the
  value \<open>K2\<close> gives it and any other key the value of \<open>K\<close>. This holds for whatever
  callable \<open>t\<close> the property \<^verbatim>\<open>transformation\<close> gives, and so for the built-ins of
  the three subclasses. The keywords \<open>K2\<close> are those that reach \<^verbatim>\<open>**kwargs\<close>:
  distinct, and none named \<^verbatim>\<open>self\<close> or \<^verbatim>\<open>iterable\<close>.
\<close>

theorem PartialBase_invoke_merges:
  assumes "''self'' \<notin> set (dict_keys K2)"
    and "''iterable'' \<notin> set (dict_keys K2)"
    and "distinct (dict_keys K2)"
  shows "PartialBase_invoke_with t (PartialBase_init cls f A K) (s # B) K2 =
      (PartialBase_init cls f A K, t ([f, s] @ A @ B) (dict_merge K K2))
    \<and> PartialBase_invoke ap (PartialBase_init cls f A K) (s # B) K2 =
      (PartialBase_init cls f A K,
       call_builtin ap (transformation cls) ([f, s] @ A @ B) (dict_merge K K2))
    \<and> (\<forall>k. dict_get (dict_merge K K2) k =
          (case dict_get K2 k of Some v \<Rightarrow> Some v | None \<Rightarrow> dict_get K k))"
  using assms
  by (simp add: PartialBase_invoke_with_def PartialBase_invoke_def PartialBase_bind_def
      PartialBase_call_def
      PartialBase_call_with_def PartialBase_init_def dict_get_merge)

text \<open>
  The witness: stored \<^verbatim>\<open>a=1, b=2\<close> and call-time \<^verbatim>\<open>b=3, c=4\<close> reach the callable
  as \<^verbatim>\<open>a=1, b=3, c=4\<close>, after the positional arguments \<open>f, s, 10, 7\<close>; and
  \<^verbatim>\<open>PartialMap\<close> with the stored list \<^verbatim>\<open>[10, 20]\<close>, invoked on \<^verbatim>\<open>[1, 2]\<close> with
  the further list \<^verbatim>\<open>[100, 200]\<close>, is \<^verbatim>\<open>map(f, [1, 2], [10, 20], [100, 200])\<close>.
\<close>

theorem PartialBase_invoke_merges_witness:
  "''self'' \<notin> set (dict_keys [(''b'', PInt 3), (''c'', PInt 4 :: lam pyval)])
   \<and> ''iterable'' \<notin> set (dict_keys [(''b'', PInt 3), (''c'', PInt 4 :: lam pyval)])
   \<and> distinct (dict_keys [(''b'', PInt 3), (''c'', PInt 4 :: lam pyval)])
   \<and> PartialBase_invoke_with echo_call
        (PartialBase_init PartialReduce (PFun Add) [PInt 10]
           [(''a'', PInt 1), (''b'', PInt 2)])
        [PList [PInt 1, PInt 2], PInt 7] [(''b'', PInt 3), (''c'', PInt 4)] =
      (PartialBase_init PartialReduce (PFun Add) [PInt 10]
           [(''a'', PInt 1), (''b'', PInt 2)],
       Inr (Value (PTuple
         [PTuple [PFun Add, PList [PInt 1, PInt 2], PInt 10, PInt 7],
          PList [PTuple [PStr ''a'', PInt 1], PTuple [PStr ''b'', PInt 3],
                 PTuple [PStr ''c'', PInt 4]]])))
   \<and> dict_get (dict_merge [(''a'', PInt 1), (''b'', PInt 2)]
                 [(''b'', PInt 3), (''c'', PInt 4 :: lam pyval)]) ''b'' = Some (PInt 3)
   \<and> PartialBase_invoke apply_lam
        (PartialBase_init PartialMap (PFun Add) [PList [PInt 10, PInt 20]] [])
        [PList [PInt 1, PInt 2], PList [PInt 100, PInt 200]] [] =
      (PartialBase_init PartialMap (PFun Add) [PList [PInt 10, PInt 20]] [],
       Inr (MapObject (PFun Add)
         [[PInt 1, PInt 10, PInt 100], [PInt 2, PInt 20, PInt 200]]))"
proof -
  have h1: "''self'' \<notin> set (dict_keys [(''b'', PInt 3), (''c'', PInt 4 :: lam pyval)])"
    and h2: "''iterable'' \<notin> set (dict_keys [(''b'', PInt 3), (''c'', PInt 4 :: lam pyval)])"
    and h3: "distinct (dict_keys [(''b'', PInt 3), (''c'', PInt 4 :: lam pyval)])"
    by (simp_all add: dict_keys_def)
  have e1: "''self'' \<notin> set (dict_keys ([] :: lam kwargs))"
    and e2: "''iterable'' \<notin> set (dict_keys ([] :: lam kwargs))"
    and e3: "distinct (dict_keys ([] :: lam kwargs))"
    by (simp_all add: dict_keys_def)
  have m: "dict_merge [(''a'', PInt 1), (''b'', PInt 2)]
             [(''b'', PInt 3), (''c'', PInt 4 :: lam pyval)] =
           [(''a'', PInt 1), (''b'', PInt 3), (''c'', PInt 4)]"
    by (simp add: dict_merge_def)
  note t = PartialBase_invoke_merges [OF h1 h2 h3, of echo_call PartialReduce "PFun Add"
      "[PInt 10]" "[(''a'', PInt 1), (''b'', PInt 2)]" "PList [PInt 1, PInt 2]" "[PInt 7]"
      apply_lam]
  note u = PartialBase_invoke_merges [OF e1 e2 e3, of echo_call PartialMap "PFun Add"
      "[PList [PInt 10, PInt 20]]" "[]" "PList [PInt 1, PInt 2]"
      "[PList [PInt 100, PInt 200]]" apply_lam]
  from t have a: "PartialBase_invoke_with echo_call
        (PartialBase_init PartialReduce (PFun Add) [PInt 10]
           [(''a'', PInt 1), (''b'', PInt 2)])
        [PList [PInt 1, PInt 2], PInt 7] [(''b'', PInt 3), (''c'', PInt 4)] =
      (PartialBase_init PartialReduce (PFun Add) [PInt 10]
           [(''a'', PInt 1), (''b'', PInt 2)],
       Inr (Value (PTuple
         [PTuple [PFun Add, PList [PInt 1, PInt 2], PInt 10, PInt 7],
          PList [PTuple [PStr ''a'', PInt 1], PTuple [PStr ''b'', PInt 3],
                 PTuple [PStr ''c'', PInt 4]]])))"
    unfolding m by (simp add: echo_call_def)
  from t have b: "dict_get (dict_merge [(''a'', PInt 1), (''b'', PInt 2)]
                 [(''b'', PInt 3), (''c'', PInt 4 :: lam pyval)]) ''b'' = Some (PInt 3)"
    by (simp add: dict_get_def)
  from u have c: "PartialBase_invoke apply_lam
        (PartialBase_init PartialMap (PFun Add) [PList [PInt 10, PInt 20]] [])
        [PList [PInt 1, PInt 2], PList [PInt 100, PInt 200]] [] =
      (PartialBase_init PartialMap (PFun Add) [PList [PInt 10, PInt 20]] [],
       Inr (MapObject (PFun Add)
         [[PInt 1, PInt 10, PInt 100], [PInt 2, PInt 20, PInt 200]]))"
    by (simp add: dict_merge_def py_map_def)
  from h1 h2 h3 a b c show ?thesis by blast
qed

text \<open>
  Claim C6: for a deferred object of either module and every left operand \<open>s\<close>, the
  pipe \<^verbatim>\<open>s | d\<close> is the call \<^verbatim>\<open>d(s)\<close> with \<open>s\<close> as the sole argument: the same
  outcome and the same object afterwards, namely the built-in applied to the stored
  arguments.
\<close>

theorem pipe_is_call_with_sole_argument:
  "PartialBase_ror ap d s = PartialBase_invoke ap d [s] []
   \<and> PartialPipe_ror ap p s = PartialPipe_invoke ap p [s] []
   \<and> pipe_object ap s (Partial d) = call_object ap (Partial d) [s] []
   \<and> pipe_object ap s (Pipe p) = call_object ap (Pipe p) [s] []
   \<and> PartialBase_ror ap d s =
       (d, call_builtin ap (transformation (pb_class d))
             (pb_function d # s # pb_args d) (pb_kwargs d))
   \<and> PartialPipe_ror ap p s =
       (p, call_builtin ap (pp_function p) (s # pp_args p) (pp_kwargs p))"
  by (simp add: PartialBase_ror_def PartialPipe_ror_def PartialBase_invoke_def
      PartialBase_bind_def PartialBase_call_def
      PartialBase_call_with_def PartialPipe_invoke_def PartialPipe_bind_def
      PartialPipe_call_def dict_keys_def dict_merge_def)

text \<open>
  Claim C7: neither invoking nor piping changes the stored function, positional
  arguments or keyword arguments of a deferred object, whatever the arguments and
  whether or not the call raises. So the one object \<^verbatim>\<open>efilter(f)\<close>, applied to
  \<open>s1\<close> and then to \<open>s2\<close>, gives \<^verbatim>\<open>filter(f, s1)\<close> and \<^verbatim>\<open>filter(f, s2)\<close>.
\<close>

theorem application_leaves_deferred_unchanged:
  "fst (PartialBase_invoke ap d pos kw) = d
   \<and> fst (PartialBase_ror ap d s) = d
   \<and> fst (PartialPipe_invoke ap p pos kw) = p
   \<and> fst (PartialPipe_ror ap p s) = p
   \<and> efilter f PNone = Inr (Partial (PartialBase_init PartialFilter f [] []))
   \<and> (let d0 = PartialBase_init PartialFilter f [] [];
          (d1, r1) = PartialBase_invoke ap d0 [s1] [];
          (d2, r2) = PartialBase_ror ap d1 s2
      in d1 = d0 \<and> d2 = d0
         \<and> r1 = py_filter [f, s1] [] \<and> r2 = py_filter [f, s2] [])"
  by (simp add: PartialBase_ror_def PartialPipe_ror_def PartialBase_invoke_def
      PartialBase_bind_def PartialBase_call_def
      PartialBase_call_with_def PartialPipe_invoke_def PartialPipe_bind_def
      PartialPipe_call_def dict_keys_def dict_merge_def efilter_def PartialBase_init_def
      split: sum.splits prod.splits list.splits)

text \<open>
  Claim C8: piping into a wrapper instance itself applies its built-in to the left
  operand and to nothing else; \<^verbatim>\<open>[1, 2, 3] | esum\<close> is 6 and
  \<^verbatim>\<open>esum()([1, 2, 3])\<close> is 6.
\<close>

theorem pipe_into_wrapper_applies_builtin:
  "FunctionPartialPipe_ror ap w s = call_builtin ap (fpp_function w) [s] []
   \<and> FunctionPartialPipe_ror ap esum (PList [PInt 1, PInt 2, PInt 3]) = Inr (Value (PInt 6))
   \<and> then_call ap (FunctionPartialPipe_call ap esum [] []) [PList [PInt 1, PInt 2, PInt 3]] []
       = Inr (Value (PInt 6))"
  by (simp add: FunctionPartialPipe_ror_def FunctionPartialPipe_call_def esum_def
      PartialPipe_init_def dict_keys_def then_call_def PartialPipe_invoke_def
      PartialPipe_bind_def PartialPipe_call_def py_sum_def sum_from_def is_str_def py_add_def)

text \<open>
  Claim C9: \<^verbatim>\<open>ereduce\<close> applies \<^verbatim>\<open>reduce\<close> at once exactly when there is a first
  extra positional argument and it has the attribute \<^verbatim>\<open>__iter__\<close>;
  \<^verbatim>\<open>ereduce(lambda a, b: a + b, [], 0)\<close> takes this path and is 0.
\<close>

theorem ereduce_immediate_iff_first_has_iter:
  "(ereduce ap f args = py_reduce ap (f # args) []) = (args \<noteq> [] \<and> has_iter (hd args))
   \<and> ereduce apply_lam (PFun Add) [PList [], PInt 0] = Inr (Value (PInt 0))"
proof -
  have "ereduce apply_lam (PFun Add) [PList [], PInt 0] = Inr (Value (PInt 0))"
    by (simp add: ereduce_def py_reduce_def)
  moreover have
    "(ereduce ap f args = py_reduce ap (f # args) []) = (args \<noteq> [] \<and> has_iter (hd args))"
    using py_reduce_not_deferred [of ap "f # args" "[]" "PartialBase_init PartialReduce f args []"]
    by (auto simp: ereduce_def)
  ultimately show ?thesis by blast
qed

text \<open>
  Claim C10: with a false iterable argument, the empty list for one, \<^verbatim>\<open>emap\<close> and
  \<^verbatim>\<open>efilter\<close> return a deferred object and do not apply the built-in: the
  dispatch tests the truth value of the argument.
\<close>

theorem falsy_iterable_defers:
  assumes "\<not> truthy s"
  shows "emap f s = Inr (Partial (PartialBase_init PartialMap f [] []))
    \<and> efilter f s = Inr (Partial (PartialBase_init PartialFilter f [] []))
    \<and> emap f s \<noteq> py_map [f, s] []
    \<and> efilter f s \<noteq> py_filter [f, s] []"
  using assms py_map_not_deferred [of "[f, s]" "[]" "PartialBase_init PartialMap f [] []"]
    py_filter_not_deferred [of "[f, s]" "[]" "PartialBase_init PartialFilter f [] []"]
  by (simp add: emap_def efilter_def)

theorem falsy_iterable_defers_witness:
  "\<not> truthy (PList [] :: lam pyval)
   \<and> emap (PFun Double) (PList []) =
       Inr (Partial (PartialBase_init PartialMap (PFun Double) [] []))
   \<and> efilter (PFun GreaterOne) (PList []) =
       Inr (Partial (PartialBase_init PartialFilter (PFun GreaterOne) [] []))"
proof -
  have h: "\<not> truthy (PList [] :: lam pyval)" by simp
  from h falsy_iterable_defers [OF h, of "PFun Double"]
    falsy_iterable_defers [OF h, of "PFun GreaterOne"]
  show ?thesis by blast
qed

end
